theory Spec2Isabelle
  imports Complex_Main
begin

section \<open>JavaScript values and strings\<close>

text \<open>
  The values the code passes around without a schema (metadata objects, the changed fields of
  an update event) are JavaScript values. Numbers are the integers among them; a string is
  its sequence of code units, all below 256.
\<close>

datatype jsval =
    JUndefined
  | JNull
  | JBool bool
  | JNum int
  | JStr string
  | JObj "(string \<times> jsval) list"

fun truthy :: "jsval \<Rightarrow> bool" where
  "truthy JUndefined = False"
| "truthy JNull = False"
| "truthy (JBool b) = b"
| "truthy (JNum n) = (n \<noteq> 0)"
| "truthy (JStr s) = (s \<noteq> [])"
| "truthy (JObj kvs) = True"

definition jsOr :: "jsval \<Rightarrow> jsval \<Rightarrow> jsval" where
  "jsOr a b = (if truthy a then a else b)"

text \<open>
  Reading a property \<^verbatim>\<open>o.k\<close>: \<^verbatim>\<open>undefined\<close> when the object has none, and on the
  primitive values the code reads from (it never reads from \<^verbatim>\<open>undefined\<close> or \<^verbatim>\<open>null\<close>
  without \<^verbatim>\<open>?.\<close>).
\<close>

fun getProp :: "jsval \<Rightarrow> string \<Rightarrow> jsval" where
  "getProp (JObj kvs) k = (case map_of kvs k of None \<Rightarrow> JUndefined | Some v \<Rightarrow> v)"
| "getProp v k = JUndefined"

text \<open>Optional chaining \<^verbatim>\<open>o?.k\<close> is \<^verbatim>\<open>undefined\<close> on \<^verbatim>\<open>undefined\<close>
  and \<^verbatim>\<open>null\<close>, where \<^verbatim>\<open>o.k\<close> throws; on every other value it is \<open>getProp\<close>.\<close>

definition optProp :: "jsval \<Rightarrow> string \<Rightarrow> jsval" where
  "optProp v k = getProp v k"

fun setProp :: "(string \<times> jsval) list \<Rightarrow> string \<Rightarrow> jsval \<Rightarrow> (string \<times> jsval) list" where
  "setProp [] k v = [(k, v)]"
| "setProp ((k', v') # kvs) k v = (if k' = k then (k, v) # kvs else (k', v') # setProp kvs k v)"

definition digit :: "nat \<Rightarrow> char" where
  "digit d = ''0123456789'' ! d"

fun showNat :: "nat \<Rightarrow> string" where
  "showNat n = (if n < 10 then [digit n] else showNat (n div 10) @ [digit (n mod 10)])"

definition showInt :: "int \<Rightarrow> string" where
  "showInt i = (if i < 0 then CHR ''-'' # showNat (nat (- i)) else showNat (nat i))"

text \<open>The string a template literal \<^verbatim>\<open>${v}\<close> puts in.\<close>

fun toStr :: "jsval \<Rightarrow> string" where
  "toStr JUndefined = ''undefined''"
| "toStr JNull = ''null''"
| "toStr (JBool b) = (if b then ''true'' else ''false'')"
| "toStr (JNum n) = showInt n"
| "toStr (JStr s) = s"
| "toStr (JObj kvs) = ''[object Object]''"

text \<open>
  \<^verbatim>\<open>String.prototype.trim\<close> removes white space and line terminators from both ends:
  among the code units below 256 these are tab, line feed, vertical tab, form feed,
  carriage return, space and the no-break space.
\<close>

definition isWhiteSpace :: "char \<Rightarrow> bool" where
  "isWhiteSpace c = (of_char c \<in> {9, 10, 11, 12, 13, 32, 160 :: nat})"

definition trim :: "string \<Rightarrow> string" where
  "trim s = rev (dropWhile isWhiteSpace (rev (dropWhile isWhiteSpace s)))"

text \<open>
  \<^verbatim>\<open>String.prototype.toLowerCase\<close> on code units below 256: the letters A to Z and the
  accented capitals 192 to 222 (but the multiplication sign 215) move up by 32.
\<close>

definition lowerChar :: "char \<Rightarrow> char" where
  "lowerChar c =
     (let n = of_char c :: nat
      in if (65 \<le> n \<and> n \<le> 90) \<or> (192 \<le> n \<and> n \<le> 222 \<and> n \<noteq> 215) then char_of (n + 32)
         else c)"

definition toLowerCase :: "string \<Rightarrow> string" where
  "toLowerCase s = map lowerChar s"

definition newline :: char where
  "newline = CHR 0x0A"

section \<open>Records of the two collections\<close>

text \<open>
  A document of the \<^verbatim>\<open>CarProduct\<close> collection, by its schema (models/carModel.js). A field that
  is \<^verbatim>\<open>undefined\<close> or \<^verbatim>\<open>null\<close> is \<open>None\<close>. An identifier is the string
  \<^verbatim>\<open>_id.toString()\<close> gives.
\<close>

type_synonym objectId = string

record car =
  car_id :: objectId
  name :: "string option"
  brand :: "string option"
  modelYear :: "int option"
  category :: "string option"
  description :: "string option"
  price :: "int option"
  fuelType :: "string option"
  transmission :: "string option"
  engineCapacity :: "string option"
  mileage :: "string option"
  available :: "bool option"

text \<open>
  A document of the \<^verbatim>\<open>CarVector\<close> collection (models/vectorModel.js): the back reference, the
  text, the embedding and the schema-less metadata object. The time stamps Mongoose keeps
  beside them are left out. The collection is a list: the schema declares no unique index
  on \<^verbatim>\<open>carId\<close>, and several documents may carry the same one.
\<close>

record carVector =
  carId :: objectId
  vtext :: string
  embedding :: "real list"
  metadata :: "(string \<times> jsval) list"

datatype error =
    TypeError string
  | ProviderError string
  | DbError string

datatype logEntry =
    LogInfo string
  | LogError string error

section \<open>The change-stream listener (listeners/vectorSync.js)\<close>

definition TEXT_FIELDS :: "string list" where
  "TEXT_FIELDS = [''name'', ''brand'', ''description'', ''category'', ''fuelType'',
     ''transmission'', ''engineCapacity'', ''mileage'']"

definition DEBOUNCE_MS :: nat where
  "DEBOUNCE_MS = 3000"

datatype timerAction =
    DebouncedUpsert objectId
  | Rewatch

record timer =
  handle :: nat
  delay :: nat
  action :: timerAction

text \<open>
  The state the listener works on: the two collections, the module's \<^verbatim>\<open>debounceMap\<close>, the
  timers \<^verbatim>\<open>setTimeout\<close> has pending, the texts sent to the embedding provider so far (one
  per call of \<^verbatim>\<open>embeddings.embedQuery\<close>), the console, and the number of change streams
  opened by \<^verbatim>\<open>watchCarChanges\<close>.
\<close>

record world =
  carProducts :: "objectId \<rightharpoonup> car"
  carVectors :: "carVector list"
  debounceMap :: "objectId \<rightharpoonup> nat"
  timers :: "timer list"
  nextHandle :: nat
  embedCalls :: "string list"
  console :: "logEntry list"
  watches :: nat

text \<open>
  What the outside does while one callback runs: the answer of the embedding provider to a
  text (\<open>Inl\<close> when the call throws), and the error thrown by an operation on either
  collection, if it throws. A callback is taken as one step: what other callbacks do while
  it waits for the provider or the database is not modelled.
\<close>

record syncEnv =
  embedQuery :: "string \<Rightarrow> error + real list"
  carVectorFault :: "error option"
  carProductFault :: "error option"

definition consoleLog :: "world \<Rightarrow> logEntry \<Rightarrow> world" where
  "consoleLog w entry = w\<lparr>console := console w @ [entry]\<rparr>"

definition setTimeout :: "world \<Rightarrow> nat \<Rightarrow> timerAction \<Rightarrow> nat \<times> world" where
  "setTimeout w ms act =
     (nextHandle w,
      w\<lparr>timers := timers w @ [\<lparr>handle = nextHandle w, delay = ms, action = act\<rparr>],
        nextHandle := Suc (nextHandle w)\<rparr>)"

definition clearTimeout :: "world \<Rightarrow> nat \<Rightarrow> world" where
  "clearTimeout w h = w\<lparr>timers := filter (\<lambda>t. handle t \<noteq> h) (timers w)\<rparr>"

text \<open>
  \<^verbatim>\<open>findOneAndUpdate({ carId }, ...)\<close>: the first document with that \<^verbatim>\<open>carId\<close> is updated;
  when there is none, \<open>ins\<close> is inserted (\<^verbatim>\<open>upsert: true\<close>) or nothing happens
  (\<^verbatim>\<open>upsert: false\<close>, \<open>ins = None\<close>).
\<close>

fun findOneAndUpdate ::
  "objectId \<Rightarrow> (carVector \<Rightarrow> carVector) \<Rightarrow> carVector option \<Rightarrow> carVector list \<Rightarrow> carVector list"
where
  "findOneAndUpdate cid upd ins [] = (case ins of None \<Rightarrow> [] | Some d \<Rightarrow> [d])"
| "findOneAndUpdate cid upd ins (d # ds) =
     (if carId d = cid then upd d # ds else d # findOneAndUpdate cid upd ins ds)"

fun findOneAndDelete :: "objectId \<Rightarrow> carVector list \<Rightarrow> carVector list" where
  "findOneAndDelete cid [] = []"
| "findOneAndDelete cid (d # ds) = (if carId d = cid then ds else d # findOneAndDelete cid ds)"

definition orEmpty :: "string option \<Rightarrow> string" where
  "orEmpty f = (case f of None \<Rightarrow> [] | Some s \<Rightarrow> s)"

text \<open>The text \<^verbatim>\<open>upsertEmbeddingForCar\<close> embeds: eight fields, a space between each, trimmed.\<close>

definition carText :: "car \<Rightarrow> string" where
  "carText c =
     trim (orEmpty (name c) @ '' '' @ orEmpty (brand c) @ '' '' @ orEmpty (category c) @ '' ''
       @ orEmpty (description c) @ '' '' @ orEmpty (fuelType c) @ '' ''
       @ orEmpty (transmission c) @ '' '' @ orEmpty (engineCapacity c) @ '' ''
       @ orEmpty (mileage c))"

definition jsString :: "string option \<Rightarrow> jsval" where
  "jsString f = (case f of None \<Rightarrow> JUndefined | Some s \<Rightarrow> JStr s)"

definition jsNumber :: "int option \<Rightarrow> jsval" where
  "jsNumber f = (case f of None \<Rightarrow> JUndefined | Some n \<Rightarrow> JNum n)"

definition carMetadata :: "car \<Rightarrow> (string \<times> jsval) list" where
  "carMetadata c =
     [(''name'', jsString (name c)), (''brand'', jsString (brand c)),
      (''category'', jsString (category c)), (''price'', jsNumber (price c)),
      (''source'', JStr ''car_database'')]"

definition carVectorOf :: "car \<Rightarrow> real list \<Rightarrow> carVector" where
  "carVectorOf c vector =
     \<lparr>carId = car_id c, vtext = carText c, embedding = vector, metadata = carMetadata c\<rparr>"

text \<open>
  \<^verbatim>\<open>upsertEmbeddingForCar(car)\<close>. Reading \<^verbatim>\<open>car._id\<close> of a missing document throws before
  the \<^verbatim>\<open>try\<close>; inside it, a failure of the provider or of the collection is logged and
  the function returns. The result is the exception that leaves the function, if any,
  and the state.
\<close>

definition upsertEmbeddingForCar :: "syncEnv \<Rightarrow> world \<Rightarrow> car option \<Rightarrow> error option \<times> world" where
  "upsertEmbeddingForCar env w doc =
     (case doc of
        None \<Rightarrow> (Some (TypeError ''Cannot read properties of null (reading _id)''), w)
      | Some c \<Rightarrow>
          let w1 = w\<lparr>embedCalls := embedCalls w @ [carText c]\<rparr>
          in case embedQuery env (carText c) of
               Inl e \<Rightarrow> (None, consoleLog w1 (LogError ''Error generating embedding:'' e))
             | Inr vector \<Rightarrow>
                 (case carVectorFault env of
                    Some e \<Rightarrow> (None, consoleLog w1 (LogError ''Error generating embedding:'' e))
                  | None \<Rightarrow>
                      (None,
                       consoleLog
                         (w1\<lparr>carVectors :=
                               findOneAndUpdate (car_id c)
                                 (\<lambda>d. d\<lparr>carId := car_id c, vtext := carText c,
                                        embedding := vector, metadata := carMetadata c\<rparr>)
                                 (Some (carVectorOf c vector)) (carVectors w1)\<rparr>)
                         (LogInfo (''Upserted embedding for car ID: '' @ car_id c)))))"

text \<open>
  The callback of the debounce timer: fetch the car again, embed it if it is there, log
  what is thrown, and in any case delete the entry of \<^verbatim>\<open>debounceMap\<close>.
\<close>

definition debounceFire :: "syncEnv \<Rightarrow> world \<Rightarrow> objectId \<Rightarrow> world" where
  "debounceFire env w cid =
     (let (thrown, w1) =
            (case carProductFault env of
               Some e \<Rightarrow> (Some e, w)
             | None \<Rightarrow>
                 (case carProducts w cid of
                    None \<Rightarrow> (None, w)
                  | Some c \<Rightarrow> upsertEmbeddingForCar env w (Some c)));
          w2 = (case thrown of
                  None \<Rightarrow> w1
                | Some e \<Rightarrow> consoleLog w1 (LogError ''Error in debounced upsert:'' e))
      in w2\<lparr>debounceMap := (debounceMap w2)(cid := None)\<rparr>)"

datatype operationType = Insert | Update | Replace | Delete | Invalidate

text \<open>
  A change event. \<^verbatim>\<open>documentKey\<close> is missing on the events that are not about one document,
  \<^verbatim>\<open>fullDocument\<close> is missing on a delete and when the looked-up document is gone, and
  \<^verbatim>\<open>updateDescription\<close> holds the \<^verbatim>\<open>updatedFields\<close> object of an update.
\<close>

record change =
  operationType :: operationType
  documentKey :: "objectId option"
  fullDocument :: "car option"
  updateDescription :: "(string \<times> jsval) list option"

text \<open>
  The body of the \<^verbatim>\<open>try\<close> in the listener of \<^verbatim>\<open>"change"\<close>, branch by branch in the order
  of the source: the first test already takes every update.
\<close>

definition changeBody :: "syncEnv \<Rightarrow> world \<Rightarrow> change \<Rightarrow> error option \<times> world" where
  "changeBody env w ch =
     (let opr = operationType ch
      in case documentKey ch of
           None \<Rightarrow> (Some (TypeError ''Cannot read properties of undefined (reading _id)''), w)
         | Some cid \<Rightarrow>
             if opr = Insert \<or> opr = Update then upsertEmbeddingForCar env w (fullDocument ch)
             else if opr = Update then
               (let updatedFields = (case updateDescription ch of None \<Rightarrow> [] | Some fs \<Rightarrow> fs);
                    touchedFields = map fst updatedFields;
                    shouldReembed = list_ex (\<lambda>field. List.member TEXT_FIELDS field) touchedFields
                in if shouldReembed then
                     (let w1 = (case debounceMap w cid of
                                  Some h \<Rightarrow> clearTimeout w h
                                | None \<Rightarrow> w);
                          (h, w2) = setTimeout w1 DEBOUNCE_MS (DebouncedUpsert cid)
                      in (None, w2\<lparr>debounceMap := (debounceMap w2)(cid \<mapsto> h)\<rparr>))
                   else
                     (let w1 = consoleLog w
                                 (LogInfo (''No relevant text fields updated for car ID: '' @ cid
                                    @ '', skipping re-embedding.''));
                          newPrice = getProp (JObj updatedFields) ''price'';
                          newAvailable = getProp (JObj updatedFields) ''available'';
                          updatedMeta =
                            (if newPrice \<noteq> JUndefined then [(''price'', newPrice)] else [])
                            @ (if newAvailable \<noteq> JUndefined then [(''available'', newAvailable)]
                               else [])
                      in if updatedMeta \<noteq> [] then
                           (case carVectorFault env of
                              Some e \<Rightarrow> (Some e, w1)
                            | None \<Rightarrow>
                                (None,
                                 w1\<lparr>carVectors :=
                                      findOneAndUpdate cid
                                        (\<lambda>d. d\<lparr>metadata :=
                                                 setProp (setProp (metadata d) ''price'' newPrice)
                                                   ''available'' newAvailable\<rparr>)
                                        None (carVectors w1)\<rparr>))
                         else (None, w1)))
             else if opr = Delete then
               (case carVectorFault env of
                  Some e \<Rightarrow> (Some e, w)
                | None \<Rightarrow>
                    (None,
                     consoleLog (w\<lparr>carVectors := findOneAndDelete cid (carVectors w)\<rparr>)
                       (LogInfo (''Deleted embedding for removed car ID: '' @ cid))))
             else (None, w))"

text \<open>
  The listener: the body inside \<^verbatim>\<open>try\<close>, and the \<^verbatim>\<open>catch\<close> that logs what the body
  throws. \<open>Inl\<close> would be an exception leaving the listener.
\<close>

definition onChange :: "syncEnv \<Rightarrow> world \<Rightarrow> change \<Rightarrow> error + world" where
  "onChange env w ch =
     (case changeBody env w ch of
        (None, w') \<Rightarrow> Inr w'
      | (Some e, w') \<Rightarrow> Inr (consoleLog w' (LogError ''Error processing change event:'' e)))"

text \<open>
  The subscription: the stream hands each event to the listener in turn, each with what the
  outside does while it is handled. An exception that left the listener would end it.
\<close>

fun deliver :: "world \<Rightarrow> (syncEnv \<times> change) list \<Rightarrow> error + world" where
  "deliver w [] = Inr w"
| "deliver w ((env, ch) # rest) =
     (case onChange env w ch of
        Inl e \<Rightarrow> Inl e
      | Inr w' \<Rightarrow> deliver w' rest)"

text \<open>\<^verbatim>\<open>watchCarChanges()\<close> announces itself and opens a change stream with the two listeners.\<close>

definition watchCarChanges :: "world \<Rightarrow> world" where
  "watchCarChanges w =
     (consoleLog w (LogInfo ''Watching for changes in CarProduct collection...''))
       \<lparr>watches := Suc (watches w)\<rparr>"

text \<open>The listener of \<^verbatim>\<open>"error"\<close>: log, and call \<^verbatim>\<open>watchCarChanges\<close> again in five seconds.\<close>

definition onStreamError :: "world \<Rightarrow> error \<Rightarrow> error + world" where
  "onStreamError w e =
     Inr (snd (setTimeout (consoleLog w (LogError ''Change stream error:'' e)) 5000 Rewatch))"

text \<open>A pending timer fires: the runtime drops it and runs its callback.\<close>

definition fireTimer :: "syncEnv \<Rightarrow> world \<Rightarrow> nat \<Rightarrow> world" where
  "fireTimer env w h =
     (case find (\<lambda>t. handle t = h) (timers w) of
        None \<Rightarrow> w
      | Some t \<Rightarrow>
          (let w1 = w\<lparr>timers := filter (\<lambda>t. handle t \<noteq> h) (timers w)\<rparr>
           in case action t of
                DebouncedUpsert cid \<Rightarrow> debounceFire env w1 cid
              | Rewatch \<Rightarrow> watchCarChanges w1))"

section \<open>The retrieval cache (utils/cache.js)\<close>

text \<open>
  \<^verbatim>\<open>SimpleCache\<close> keeps a JavaScript \<^verbatim>\<open>Map\<close> from keys to items
  \<^verbatim>\<open>{ value, expiresAt }\<close> and a time to live in milliseconds. Every method that reads
  \<^verbatim>\<open>Date.now()\<close> takes the reading as the argument \<open>now\<close>. A result of
  \<^verbatim>\<open>null\<close> is \<open>None\<close>.
\<close>

record 'v item =
  val :: 'v
  expiresAt :: int

record 'v SimpleCache =
  cache :: "string \<rightharpoonup> 'v item"
  ttl :: int

definition newCache :: "int \<Rightarrow> 'v SimpleCache" where
  "newCache ttlMs = \<lparr>cache = Map.empty, ttl = ttlMs\<rparr>"

definition set_cache :: "'v SimpleCache \<Rightarrow> string \<Rightarrow> 'v \<Rightarrow> int \<Rightarrow> 'v SimpleCache" where
  "set_cache c key v now =
     (let expires = now + ttl c
      in c\<lparr>cache := (cache c)(key \<mapsto> \<lparr>val = v, expiresAt = expires\<rparr>)\<rparr>)"

definition get_cache :: "'v SimpleCache \<Rightarrow> string \<Rightarrow> int \<Rightarrow> 'v option \<times> 'v SimpleCache" where
  "get_cache c key now =
     (case cache c key of
        None \<Rightarrow> (None, c)
      | Some it \<Rightarrow>
          if now > expiresAt it then (None, c\<lparr>cache := (cache c)(key := None)\<rparr>)
          else (Some (val it), c))"

definition cleanup :: "'v SimpleCache \<Rightarrow> int \<Rightarrow> 'v SimpleCache" where
  "cleanup c now =
     c\<lparr>cache := (\<lambda>key. case cache c key of
                        None \<Rightarrow> None
                      | Some it \<Rightarrow> if now > expiresAt it then None else Some it)\<rparr>"

text \<open>The instance used for the answers: three minutes.\<close>

definition ragCacheTtl :: int where
  "ragCacheTtl = 3 * 60 * 1000"

section \<open>The document builder of the car controller (controllers/carController.js)\<close>

text \<open>A LangChain document: its text and its metadata object.\<close>

record document =
  pageContent :: string
  docMetadata :: jsval

text \<open>\<^verbatim>\<open>${f}\<close> for a string field, and \<^verbatim>\<open>${f || 'N/A'}\<close>.\<close>

definition shown :: "string option \<Rightarrow> string" where
  "shown f = (case f of None \<Rightarrow> ''undefined'' | Some s \<Rightarrow> s)"

definition orNA :: "string option \<Rightarrow> string" where
  "orNA f = (case f of None \<Rightarrow> ''N/A'' | Some s \<Rightarrow> if s = [] then ''N/A'' else s)"

definition transformCarToDocument :: "car \<Rightarrow> document" where
  "transformCarToDocument c =
     \<lparr>pageContent =
        ''Car: '' @ shown (name c) @ [newline]
        @ ''Brand: '' @ shown (brand c) @ [newline]
        @ ''Model Year: ''
        @ (case modelYear c of
             None \<Rightarrow> ''N/A''
           | Some y \<Rightarrow> if y = 0 then ''N/A'' else showInt y) @ [newline]
        @ ''Category: '' @ orNA (category c) @ [newline]
        @ ''Description: '' @ orNA (description c) @ [newline]
        @ ''Price: ''
        @ (case price c of
             None \<Rightarrow> ''N/A''
           | Some n \<Rightarrow> if n = 0 then ''N/A'' else ''$'' @ showInt n) @ [newline]
        @ ''Fuel Type: '' @ orNA (fuelType c) @ [newline]
        @ ''Transmission: '' @ orNA (transmission c) @ [newline]
        @ ''Engine Capacity: '' @ orNA (engineCapacity c) @ [newline]
        @ ''Mileage: '' @ orNA (mileage c),
      docMetadata =
        JObj [(''carId'', JStr (car_id c)), (''name'', jsString (name c)),
              (''brand'', jsString (brand c)), (''category'', jsString (category c)),
              (''price'', jsNumber (price c)), (''source'', JStr ''car_database'')]\<rparr>"

section \<open>The answer composer (controllers/ragController.js)\<close>

record source =
  sourceName :: jsval
  sourceBrand :: jsval
  sourcePrice :: jsval
  sourceCategory :: jsval

record responseData =
  query :: string
  answer :: string
  responseTime :: string
  cached :: bool
  sources :: "source list"

text \<open>
  What \<^verbatim>\<open>res\<close> is given: a message (status 400), the failure report of the \<^verbatim>\<open>catch\<close>
  (status 500, with \<^verbatim>\<open>error.message\<close>), or the answer, with the property \<^verbatim>\<open>cacheHit\<close>
  when it has one.
\<close>

datatype body =
    Message string
  | Failure string string
  | Json responseData "bool option"

record response =
  status :: nat
  body :: body

text \<open>
  The outside of one request: whether the connection pool gives a client, what the
  similarity search returns for a query and a number of results, and what the model
  answers to a system text and a user text. Building the LangChain objects is counted
  with the call made on them.
\<close>

record ragEnv =
  getClient :: "error option"
  similaritySearch :: "string \<Rightarrow> nat \<Rightarrow> error + document list"
  llmInvoke :: "string \<Rightarrow> string \<Rightarrow> error + string"

text \<open>The readings of \<^verbatim>\<open>Date.now()\<close> during one request, in the order of the source.\<close>

record ragClock =
  tGet :: int
  tStart :: int
  tSearched :: int
  tLlmStart :: int
  tLlmEnd :: int
  tTotal :: int
  tSet :: int

fun errorMessage :: "error \<Rightarrow> string" where
  "errorMessage (TypeError m) = m"
| "errorMessage (ProviderError m) = m"
| "errorMessage (DbError m) = m"

fun splitOn :: "char \<Rightarrow> string \<Rightarrow> string list" where
  "splitOn sep [] = [[]]"
| "splitOn sep (c # cs) =
     (if c = sep then [] # splitOn sep cs
      else (case splitOn sep cs of
              [] \<Rightarrow> [[c]]
            | l # ls \<Rightarrow> (c # l) # ls))"

definition startsWith :: "string \<Rightarrow> string \<Rightarrow> bool" where
  "startsWith s p = (take (length p) s = p)"

fun joinWith :: "string \<Rightarrow> string list \<Rightarrow> string" where
  "joinWith sep [] = []"
| "joinWith sep [x] = x"
| "joinWith sep (x # y # ys) = x @ sep @ joinWith sep (y # ys)"

text \<open>
  \<^verbatim>\<open>lines.find(line => line.startsWith(label))?.replace(label, '').trim() || dflt\<close>: the
  first occurrence of the label in a line that starts with it is its start.
\<close>

definition lineValue :: "string \<Rightarrow> string list \<Rightarrow> string \<Rightarrow> jsval" where
  "lineValue label lines dflt =
     (case find (\<lambda>line. startsWith line label) lines of
        None \<Rightarrow> JStr dflt
      | Some line \<Rightarrow>
          (let v = trim (drop (length label) line) in if v = [] then JStr dflt else JStr v))"

definition metaField :: "document \<Rightarrow> string \<Rightarrow> jsval" where
  "metaField r k =
     (let meta = jsOr (docMetadata r) (JObj [])
      in jsOr (getProp meta k) (optProp (getProp meta ''metadata'') k))"

definition contextPart :: "nat \<Rightarrow> document \<Rightarrow> string" where
  "contextPart index r =
     (let price' = metaField r ''price'';
          name' = metaField r ''name'';
          contextText =
            pageContent r
            @ (if truthy price' \<and> truthy name' then [newline] @ ''CURRENT PRICE: $'' @ toStr price'
               else [])
      in ''[Car '' @ showNat (index + 1) @ '']'' @ [newline] @ contextText)"

definition buildContext :: "document list \<Rightarrow> string" where
  "buildContext results =
     joinWith ([newline, newline] @ ''---'' @ [newline, newline])
       (map (\<lambda>(index, r). contextPart index r) (enumerate 0 results))"

definition systemContent :: "string \<Rightarrow> string" where
  "systemContent context =
     ''You are Refine AI Car Assistant. Use ONLY the provided context to answer questions. ''
     @ ''Always include exact prices when available. Be concise and specific.''
     @ [newline, newline] @ ''Context:'' @ [newline] @ context"

definition sourceOf :: "document \<Rightarrow> source" where
  "sourceOf r =
     (let name0 = metaField r ''name'';
          brand0 = metaField r ''brand'';
          price0 = metaField r ''price'';
          category0 = metaField r ''category'';
          parse = (\<not> truthy name0 \<and> pageContent r \<noteq> []);
          lines = splitOn newline (pageContent r);
          name1 = (if parse then lineValue ''Car:'' lines ''Unknown'' else name0);
          brand1 = (if parse then lineValue ''Brand:'' lines ''Unknown'' else brand0);
          price1 = (if parse then lineValue ''Price:'' lines ''N/A'' else price0);
          category1 = (if parse then lineValue ''Category:'' lines ''Unknown'' else category0)
      in \<lparr>sourceName = jsOr name1 (JStr ''Unknown''),
          sourceBrand = jsOr brand1 (JStr ''Unknown''),
          sourcePrice = jsOr price1 (JStr ''N/A''),
          sourceCategory = jsOr category1 (JStr ''Unknown'')\<rparr>)"

text \<open>
  The steps after the cache check: the client, the similarity search for three results,
  the context, the call of the model, and the answer object. \<open>Inl\<close> is what is thrown.
\<close>

definition generate :: "ragEnv \<Rightarrow> ragClock \<Rightarrow> string \<Rightarrow> error + responseData" where
  "generate env clk q =
     (case getClient env of
        Some e \<Rightarrow> Inl e
      | None \<Rightarrow>
          (case similaritySearch env q 3 of
             Inl e \<Rightarrow> Inl e
           | Inr results \<Rightarrow>
               (let context = buildContext results
                in case llmInvoke env (systemContent context) q of
                     Inl e \<Rightarrow> Inl e
                   | Inr content \<Rightarrow>
                       Inr \<lparr>query = q, answer = content,
                            responseTime = showInt (tTotal clk - tStart clk) @ ''ms'',
                            cached = False, sources = map sourceOf results\<rparr>)))"

definition cacheKeyOf :: "string \<Rightarrow> string" where
  "cacheKeyOf q = trim (toLowerCase q)"

text \<open>
  \<^verbatim>\<open>askCarAssistant(req, res)\<close> on the \<^verbatim>\<open>query\<close> of the request body and the shared
  \<^verbatim>\<open>ragCache\<close>: the response sent and the cache afterwards. A query that is not a string
  but is truthy has no \<^verbatim>\<open>trim\<close>: the call throws inside the \<^verbatim>\<open>try\<close>.
\<close>

definition askCarAssistant ::
  "ragEnv \<Rightarrow> ragClock \<Rightarrow> responseData SimpleCache \<Rightarrow> jsval \<Rightarrow> response \<times> responseData SimpleCache"
where
  "askCarAssistant env clk c q =
     (if \<not> truthy q then (\<lparr>status = 400, body = Message ''Please provide a question.''\<rparr>, c)
      else case q of
             JStr s \<Rightarrow>
               if length (trim s) = 0
               then (\<lparr>status = 400, body = Message ''Please provide a question.''\<rparr>, c)
               else
                 (let cacheKey = cacheKeyOf s;
                      (cachedResponse, c1) = get_cache c cacheKey (tGet clk)
                  in case cachedResponse of
                       Some stored \<Rightarrow>
                         (\<lparr>status = 200, body = Json (stored\<lparr>cached := True\<rparr>) (Some True)\<rparr>, c1)
                     | None \<Rightarrow>
                         (case generate env clk s of
                            Inl e \<Rightarrow>
                              (\<lparr>status = 500,
                                body = Failure ''Failed to generate RAG response'' (errorMessage e)\<rparr>,
                               c1)
                          | Inr responseData \<Rightarrow>
                              (\<lparr>status = 200, body = Json responseData None\<rparr>,
                               set_cache c1 cacheKey responseData (tSet clk))))
           | _ \<Rightarrow>
               (\<lparr>status = 500,
                 body = Failure ''Failed to generate RAG response'' ''query.trim is not a function''\<rparr>,
                c))"

section \<open>Notions used in the statements\<close>

text \<open>The documents of the vector collection that refer to one car.\<close>

definition vectorsFor :: "objectId \<Rightarrow> carVector list \<Rightarrow> carVector list" where
  "vectorsFor cid ds = filter (\<lambda>d. carId d = cid) ds"

text \<open>
  The upsert of \<^verbatim>\<open>upsertEmbeddingForCar\<close> writes all four fields, so it replaces the first
  document of its car by a fixed one, or appends that one.
\<close>

definition upsertDoc :: "carVector \<Rightarrow> carVector list \<Rightarrow> carVector list" where
  "upsertDoc d0 ds = findOneAndUpdate (carId d0) (\<lambda>d. d0) (Some d0) ds"

text \<open>The state the listener leaves, from what its body returned or threw.\<close>

definition afterBody :: "error option \<times> world \<Rightarrow> world" where
  "afterBody r = (case r of (None, w') \<Rightarrow> w'
          | (Some e, w') \<Rightarrow> consoleLog w' (LogError ''Error processing change event:'' e))"

text \<open>Sample data: a car, a provider that answers and one that fails, an empty start.\<close>

definition corolla :: car where
  "corolla = \<lparr>car_id = ''c1'', name = Some ''Corolla'', brand = Some ''Toyota'', modelYear = None,
     category = None, description = None, price = Some 20000, fuelType = None,
     transmission = None, engineCapacity = None, mileage = None, available = Some True\<rparr>"

definition okEnv :: syncEnv where
  "okEnv = \<lparr>embedQuery = (\<lambda>t. Inr [real (length t)]), carVectorFault = None,
     carProductFault = None\<rparr>"

definition downEnv :: syncEnv where
  "downEnv = \<lparr>embedQuery = (\<lambda>t. Inl (ProviderError ''timeout'')), carVectorFault = None,
     carProductFault = None\<rparr>"

definition world0 :: world where
  "world0 = \<lparr>carProducts = Map.empty, carVectors = [], debounceMap = Map.empty, timers = [],
     nextHandle = 0, embedCalls = [], console = [], watches = 1\<rparr>"

definition updateEvent :: "car \<Rightarrow> (string \<times> jsval) list \<Rightarrow> change" where
  "updateEvent c fs = \<lparr>operationType = Update, documentKey = Some (car_id c),
     fullDocument = Some c, updateDescription = Some fs\<rparr>"

definition insertEvent :: "car \<Rightarrow> change" where
  "insertEvent c = \<lparr>operationType = Insert, documentKey = Some (car_id c),
     fullDocument = Some c, updateDescription = None\<rparr>"

definition invalidateEvent :: change where
  "invalidateEvent = \<lparr>operationType = Invalidate, documentKey = None, fullDocument = None,
     updateDescription = None\<rparr>"

definition faultyEnv :: syncEnv where
  "faultyEnv = \<lparr>embedQuery = (\<lambda>t. Inr [real (length t)]), carVectorFault = None,
     carProductFault = Some (DbError ''connection lost'')\<rparr>"

definition worldPending :: world where
  "worldPending = world0\<lparr>carProducts := [''c1'' \<mapsto> corolla], debounceMap := [''c1'' \<mapsto> 0],
     timers := [\<lparr>handle = 0, delay = DEBOUNCE_MS, action = DebouncedUpsert ''c1''\<rparr>],
     nextHandle := 1\<rparr>"

definition worldRetry :: world where
  "worldRetry = world0\<lparr>timers := [\<lparr>handle = 0, delay = 5000, action = Rewatch\<rparr>],
     nextHandle := 1\<rparr>"

text \<open>Two chunks of one car, as \<^verbatim>\<open>addCarProduct\<close> stores them for a long text.\<close>

definition chunkOne :: carVector where
  "chunkOne = \<lparr>carId = ''c1'', vtext = ''chunk one'', embedding = [1],
     metadata = [(''carId'', JStr ''c1''), (''name'', JStr ''Corolla''),
                 (''source'', JStr ''car_database'')]\<rparr>"

definition chunkTwo :: carVector where
  "chunkTwo = \<lparr>carId = ''c1'', vtext = ''chunk two'', embedding = [2],
     metadata = [(''carId'', JStr ''c1''), (''name'', JStr ''Corolla''),
                 (''source'', JStr ''car_database'')]\<rparr>"

definition worldChunks :: world where
  "worldChunks = world0\<lparr>carVectors := [chunkOne, chunkTwo]\<rparr>"

text \<open>Sample data for the answers: a working outside, one whose model times out, a clock, and a
  cache whose only entry was stored at time 0.\<close>

definition ragEnvOk :: ragEnv where
  "ragEnvOk = \<lparr>getClient = None,
     similaritySearch = (\<lambda>q k. Inr (take k [transformCarToDocument corolla])),
     llmInvoke = (\<lambda>sys q. Inr ''We have the Toyota Corolla at $20,000.'')\<rparr>"

definition llmDown :: ragEnv where
  "llmDown = \<lparr>getClient = None,
     similaritySearch = (\<lambda>q k. Inr (take k [transformCarToDocument corolla])),
     llmInvoke = (\<lambda>sys q. Inl (ProviderError ''Request timed out.''))\<rparr>"

definition clockAt :: "int \<Rightarrow> ragClock" where
  "clockAt t = \<lparr>tGet = t, tStart = t + 5, tSearched = t + 300, tLlmStart = t + 300,
     tLlmEnd = t + 1500, tTotal = t + 1500, tSet = t + 1500\<rparr>"

definition oldAnswer :: responseData where
  "oldAnswer = \<lparr>query = ''Price?'', answer = ''$20,000'', responseTime = ''900ms'',
     cached = False, sources = []\<rparr>"

definition staleCache :: "responseData SimpleCache" where
  "staleCache = set_cache (newCache ragCacheTtl) ''price?'' oldAnswer 0"

section \<open>Properties of the cache\<close>

lemma get_cache_hit:
  "cache c key = Some it \<Longrightarrow> \<not> now > expiresAt it \<Longrightarrow> get_cache c key now = (Some (val it), c)"
  by (simp add: get_cache_def)

lemma get_cache_expired:
  "cache c key = Some it \<Longrightarrow> now > expiresAt it \<Longrightarrow>
   get_cache c key now = (None, c\<lparr>cache := (cache c)(key := None)\<rparr>)"
  by (simp add: get_cache_def)

lemma get_cache_absent:
  "cache c key = None \<Longrightarrow> get_cache c key now = (None, c)"
  by (simp add: get_cache_def)

lemma set_cache_lookup:
  "cache (set_cache c key v t0) key = Some \<lparr>val = v, expiresAt = t0 + ttl c\<rparr>"
  by (simp add: set_cache_def)

text \<open>The periodic sweep removes the expired entries and no other.\<close>

lemma cleanup_keeps_live:
  "cache (cleanup c now) key =
     (case cache c key of
        None \<Rightarrow> None
      | Some it \<Rightarrow> if now > expiresAt it then None else Some it)"
  by (simp add: cleanup_def)

text \<open>
  Claim C6. After \<^verbatim>\<open>set(key, value)\<close> at time \<open>t0\<close>, a \<^verbatim>\<open>get(key)\<close> at time \<open>t1\<close>
  returns the stored value and leaves the cache as it is (the expiry stays the absolute
  time \<open>t0 + ttl\<close>, whatever is read) when \<open>t1 - t0 \<le> ttl\<close>; when more than the time to
  live has passed it returns \<^verbatim>\<open>null\<close> and the entry is deleted by the read itself, also
  after an earlier read that hit.
\<close>

theorem cache_get_after_set:
  "(t1 - t0 \<le> ttl c \<longrightarrow>
      get_cache (set_cache c key v t0) key t1 = (Some v, set_cache c key v t0))
 \<and> (t1 - t0 > ttl c \<longrightarrow>
      fst (get_cache (set_cache c key v t0) key t1) = None
    \<and> cache (snd (get_cache (set_cache c key v t0) key t1)) key = None)
 \<and> map_option expiresAt (cache (set_cache c key v t0) key) = Some (t0 + ttl c)
 \<and> (t1 - t0 \<le> ttl c \<and> t2 - t0 > ttl c \<longrightarrow>
      fst (get_cache (snd (get_cache (set_cache c key v t0) key t1)) key t2) = None
    \<and> cache (snd (get_cache (snd (get_cache (set_cache c key v t0) key t1)) key t2)) key
        = None)"
proof -
  define c' where "c' = set_cache c key v t0"
  have look: "cache c' key = Some \<lparr>val = v, expiresAt = t0 + ttl c\<rparr>"
    unfolding c'_def by (rule set_cache_lookup)
  have hit: "get_cache c' key t = (Some v, c')" if "t - t0 \<le> ttl c" for t
    using that get_cache_hit [OF look, of t] by simp
  have gone: "fst (get_cache c' key t) = None \<and> cache (snd (get_cache c' key t)) key = None"
    if "t - t0 > ttl c" for t
    using that get_cache_expired [OF look, of t] by simp
  show ?thesis
    unfolding c'_def [symmetric] using hit gone look by simp
qed

theorem cache_get_after_set_witness:
  "get_cache (set_cache (newCache ragCacheTtl) ''q'' (7::nat) 1000) ''q'' 181000
     = (Some 7, set_cache (newCache ragCacheTtl) ''q'' 7 1000)
   \<and> fst (get_cache (set_cache (newCache ragCacheTtl) ''q'' (7::nat) 1000) ''q'' 181001) = None
   \<and> cache (snd (get_cache (set_cache (newCache ragCacheTtl) ''q'' (7::nat) 1000) ''q'' 181001)) ''q''
       = None
   \<and> fst (get_cache (snd (get_cache (set_cache (newCache ragCacheTtl) ''q'' (7::nat) 1000) ''q'' 181000))
            ''q'' 181001) = None"
  using cache_get_after_set [of 181000 1000 "newCache ragCacheTtl" "''q''" "7::nat" 181001]
        cache_get_after_set [of 181001 1000 "newCache ragCacheTtl" "''q''" "7::nat"]
  by (simp add: newCache_def ragCacheTtl_def)

section \<open>Properties of the listener\<close>

lemma carVector_all_fields:
  "(d::carVector)\<lparr>carId := a, vtext := b, embedding := v, metadata := m\<rparr>
     = \<lparr>carId = a, vtext = b, embedding = v, metadata = m\<rparr>"
  by (cases d) simp

lemma upsertDoc_idem: "upsertDoc d0 (upsertDoc d0 ds) = upsertDoc d0 ds"
  unfolding upsertDoc_def by (induction ds) auto

lemma vectorsFor_upsertDoc_none:
  "vectorsFor (carId d0) ds = [] \<Longrightarrow> vectorsFor (carId d0) (upsertDoc d0 ds) = [d0]"
  unfolding upsertDoc_def vectorsFor_def by (induction ds) (auto split: if_splits)

lemma vectorsFor_upsertDoc_some:
  "vectorsFor (carId d0) ds = x # xs \<Longrightarrow> vectorsFor (carId d0) (upsertDoc d0 ds) = d0 # xs"
  unfolding upsertDoc_def vectorsFor_def by (induction ds) (auto split: if_splits)

lemma vectorsFor_upsertDoc_le1:
  assumes "length (vectorsFor (carId d0) ds) \<le> 1"
  shows "vectorsFor (carId d0) (upsertDoc d0 ds) = [d0]"
proof (cases "vectorsFor (carId d0) ds")
  case Nil
  then show ?thesis by (rule vectorsFor_upsertDoc_none)
next
  case (Cons x xs)
  with assms have "xs = []" by simp
  with Cons show ?thesis using vectorsFor_upsertDoc_some [of d0 ds x xs] by simp
qed

lemma upsert_carVectors:
  "carVectors (snd (upsertEmbeddingForCar env w (Some c))) =
     (case embedQuery env (carText c) of
        Inl e \<Rightarrow> carVectors w
      | Inr v \<Rightarrow> (case carVectorFault env of Some e \<Rightarrow> carVectors w
                 | None \<Rightarrow> upsertDoc (carVectorOf c v) (carVectors w)))"
  by (simp add: upsertEmbeddingForCar_def consoleLog_def upsertDoc_def Let_def carVectorOf_def
        carVector_all_fields split: sum.splits option.splits)

lemma upsert_missing: "upsertEmbeddingForCar env w None
    = (Some (TypeError ''Cannot read properties of null (reading _id)''), w)"
  by (simp add: upsertEmbeddingForCar_def)

lemma upsert_no_throw: "fst (upsertEmbeddingForCar env w (Some c)) = None"
  by (simp add: upsertEmbeddingForCar_def Let_def split: sum.splits option.splits)

lemma upsert_embedCalls:
  "embedCalls (snd (upsertEmbeddingForCar env w (Some c))) = embedCalls w @ [carText c]"
  by (simp add: upsertEmbeddingForCar_def consoleLog_def Let_def split: sum.splits option.splits)

lemma upsert_failed:
  "embedQuery env (carText c) = Inl e \<Longrightarrow>
   upsertEmbeddingForCar env w (Some c) =
     (None, consoleLog (w\<lparr>embedCalls := embedCalls w @ [carText c]\<rparr>)
              (LogError ''Error generating embedding:'' e))"
  by (simp add: upsertEmbeddingForCar_def Let_def)

lemma changeBody_upsert:
  "operationType ch = Insert \<or> operationType ch = Update \<Longrightarrow> documentKey ch = Some cid \<Longrightarrow>
   changeBody env w ch = upsertEmbeddingForCar env w (fullDocument ch)"
  by (auto simp add: changeBody_def Let_def)

lemma changeBody_no_key:
  "documentKey ch = None \<Longrightarrow>
   changeBody env w ch = (Some (TypeError ''Cannot read properties of undefined (reading _id)''), w)"
  by (simp add: changeBody_def Let_def)

lemma onChange_returns:
  "onChange env w ch =
     Inr (case changeBody env w ch of
            (None, w') \<Rightarrow> w'
          | (Some e, w') \<Rightarrow> consoleLog w' (LogError ''Error processing change event:'' e))"
  by (simp add: onChange_def split: prod.splits option.splits)

lemma carVectors_afterBody: "carVectors (afterBody r) = carVectors (snd r)"
  by (simp add: afterBody_def consoleLog_def split: prod.splits option.splits)

lemma upsert_twice_carVectors:
  "carVectors (snd (upsertEmbeddingForCar env (afterBody (upsertEmbeddingForCar env w doc)) doc))
     = carVectors (snd (upsertEmbeddingForCar env w doc))"
proof (cases doc)
  case None
  then show ?thesis by (simp add: upsert_missing carVectors_afterBody)
next
  case (Some c)
  then show ?thesis
    by (simp add: upsert_carVectors carVectors_afterBody upsertDoc_idem
          split: sum.splits option.splits)
qed

lemma corolla_text: "carText corolla = ''Corolla Toyota''"
  by (simp add: carText_def corolla_def orEmpty_def trim_def isWhiteSpace_def)

lemma corollaA_text: "carText (corolla\<lparr>name := Some ''A''\<rparr>) = ''A Toyota''"
  by (simp add: carText_def corolla_def orEmpty_def trim_def isWhiteSpace_def)

lemma corollaB_text: "carText (corolla\<lparr>name := Some ''B''\<rparr>) = ''B Toyota''"
  by (simp add: carText_def corolla_def orEmpty_def trim_def isWhiteSpace_def)

lemma debounceFire_entry: "debounceMap (debounceFire env w cid) cid = None"
  by (simp add: debounceFire_def Let_def split: prod.splits)

lemma deliver_returns: "\<exists>w'. deliver w feed = Inr w'"
proof (induction feed arbitrary: w)
  case Nil
  then show ?case by simp
next
  case (Cons x feed)
  obtain env ch where x: "x = (env, ch)" by (cases x)
  show ?case using Cons.IH by (simp add: x onChange_returns)
qed

lemma deliver_append:
  "deliver w (xs @ ys) = (case deliver w xs of Inl e \<Rightarrow> Inl e | Inr w' \<Rightarrow> deliver w' ys)"
proof (induction xs arbitrary: w)
  case Nil
  then show ?case by simp
next
  case (Cons x xs)
  obtain env ch where x: "x = (env, ch)" by (cases x)
  show ?case using Cons.IH by (simp add: x split: sum.splits)
qed


lemma carVectorOf_sel:
  "carId (carVectorOf c v) = car_id c" "vtext (carVectorOf c v) = carText c"
  "embedding (carVectorOf c v) = v" "metadata (carVectorOf c v) = carMetadata c"
  by (simp_all add: carVectorOf_def)

lemma corolla_id: "car_id corolla = ''c1''" "car_id (corolla\<lparr>name := x\<rparr>) = ''c1''"
  by (simp_all add: corolla_def)

lemma changeBody_never_schedules:
  "timers (snd (changeBody env w ch)) = timers w
   \<and> debounceMap (snd (changeBody env w ch)) = debounceMap w
   \<and> nextHandle (snd (changeBody env w ch)) = nextHandle w"
  by (cases "fullDocument ch")
     (auto simp add: changeBody_def upsertEmbeddingForCar_def consoleLog_def Let_def
        split: option.splits sum.splits)

lemma update_embeds_at_once:
  "operationType ch = Update \<Longrightarrow> documentKey ch = Some cid \<Longrightarrow> fullDocument ch = Some c \<Longrightarrow>
   embedCalls (snd (changeBody env w ch)) = embedCalls w @ [carText c]"
  by (simp add: changeBody_upsert upsert_embedCalls)


lemma upsertDoc_overwrite:
  "carId d1 = carId d2 \<Longrightarrow> upsertDoc d2 (upsertDoc d1 ds) = upsertDoc d2 ds"
  unfolding upsertDoc_def by (induction ds) auto

text \<open>
  A redelivery on which the provider and the collection answer leaves what handling the
  event once, then, leaves, whatever happened on the first delivery.
\<close>

lemma insert_redelivered:
  assumes "operationType ch = Insert" "documentKey ch \<noteq> None" "fullDocument ch = Some c"
    and "embedQuery env2 (carText c) = Inr v" "carVectorFault env2 = None"
  shows "\<exists>w1 w2 s. onChange env1 w ch = Inr w1 \<and> onChange env2 w1 ch = Inr w2
           \<and> onChange env2 w ch = Inr s \<and> carVectors w2 = carVectors s"
proof -
  from assms(2) obtain k where k: "documentKey ch = Some k" by auto
  have b: "changeBody env x ch = upsertEmbeddingForCar env x (Some c)" for env x
    using changeBody_upsert [of ch k env x] assms(1,3) k by simp
  define w1 where "w1 = afterBody (changeBody env1 w ch)"
  have v1: "carVectors w1 = carVectors w \<or> (\<exists>u. carVectors w1 = upsertDoc (carVectorOf c u) (carVectors w))"
    unfolding w1_def b carVectors_afterBody
    by (auto simp add: upsert_carVectors split: sum.splits option.splits)
  have two: "carVectors (afterBody (changeBody env2 w1 ch))
               = upsertDoc (carVectorOf c v) (carVectors w1)"
    unfolding b carVectors_afterBody by (simp add: upsert_carVectors assms)
  have one: "carVectors (afterBody (changeBody env2 w ch))
               = upsertDoc (carVectorOf c v) (carVectors w)"
    unfolding b carVectors_afterBody by (simp add: upsert_carVectors assms)
  have "upsertDoc (carVectorOf c v) (carVectors w1) = upsertDoc (carVectorOf c v) (carVectors w)"
    using v1 by (auto simp add: upsertDoc_overwrite carVectorOf_sel)
  with two one show ?thesis
    by (simp add: onChange_returns w1_def afterBody_def)
qed

lemma vectorsFor_upsertDoc:
  "vectorsFor (carId d0) (upsertDoc d0 ds) = d0 # tl (vectorsFor (carId d0) ds)"
proof (cases "vectorsFor (carId d0) ds")
  case Nil
  then show ?thesis using vectorsFor_upsertDoc_none [of d0 ds] by simp
next
  case (Cons x xs)
  then show ?thesis using vectorsFor_upsertDoc_some [of d0 ds x xs] by simp
qed

lemma vectorsFor_upsertDoc_other:
  "cid \<noteq> carId d0 \<Longrightarrow> vectorsFor cid (upsertDoc d0 ds) = vectorsFor cid ds"
  unfolding upsertDoc_def vectorsFor_def by (induction ds) (auto split: if_splits)

text \<open>
  Claim C3, as stated, fails. The collection has no unique index on \<^verbatim>\<open>carId\<close>, and
  \<^verbatim>\<open>addCarProduct\<close> creates one document per chunk of a car. With two documents of the car
  in the collection, the insert event handled twice replaces the first and leaves the
  second: two documents of that car remain, not one.
\<close>

theorem insert_twice_leaves_two_chunks:
  "deliver worldChunks [(okEnv, insertEvent corolla), (okEnv, insertEvent corolla)] =
     Inr (worldChunks
           \<lparr>carVectors := [carVectorOf corolla [14], chunkTwo],
            embedCalls := [''Corolla Toyota'', ''Corolla Toyota''],
            console := [LogInfo ''Upserted embedding for car ID: c1'',
                        LogInfo ''Upserted embedding for car ID: c1'']\<rparr>)
   \<and> vectorsFor ''c1'' [carVectorOf corolla [14], chunkTwo] = [carVectorOf corolla [14], chunkTwo]
   \<and> length (vectorsFor ''c1'' [carVectorOf corolla [14], chunkTwo]) = 2"
  by (simp add: onChange_returns changeBody_upsert insertEvent_def upsertEmbeddingForCar_def
        corolla_text okEnv_def worldChunks_def world0_def consoleLog_def Let_def carVectorOf_sel
        corolla_id chunkOne_def chunkTwo_def vectorsFor_def carVector_all_fields carVectorOf_def)

text \<open>
  Claim C3, amended. An insert event handled twice, one handling after the other and under
  the same behaviour of the provider and of the collection, leaves the documents of the
  vector collection (back reference, text, embedding and metadata; the time stamps are not
  part of the state) as one handling leaves them. When the event carries its document and
  the provider and the collection answer, the first document of that car is the one built
  from the event, or that one is created; the further documents of that car and the
  documents of every other car stay. So the car has exactly one document afterwards when
  it had at most one before. When the provider fails, the collection is as it was.
  (When the outside behaves differently on the redelivery, see \<open>insert_redelivered\<close>.)
\<close>

theorem insert_twice_idempotent:
  "operationType ch = Insert \<Longrightarrow>
   \<exists>w1 w2. onChange env w ch = Inr w1 \<and> onChange env w1 ch = Inr w2
     \<and> carVectors w2 = carVectors w1
     \<and> (\<forall>c v. documentKey ch \<noteq> None \<and> fullDocument ch = Some c
               \<and> embedQuery env (carText c) = Inr v \<and> carVectorFault env = None
           \<longrightarrow> vectorsFor (car_id c) (carVectors w2)
                 = carVectorOf c v # tl (vectorsFor (car_id c) (carVectors w))
               \<and> (\<forall>cid. cid \<noteq> car_id c \<longrightarrow>
                     vectorsFor cid (carVectors w2) = vectorsFor cid (carVectors w))
               \<and> (length (vectorsFor (car_id c) (carVectors w)) \<le> 1 \<longrightarrow>
                     vectorsFor (car_id c) (carVectors w2) = [carVectorOf c v]))
     \<and> (\<forall>c e. documentKey ch \<noteq> None \<and> fullDocument ch = Some c
               \<and> embedQuery env (carText c) = Inl e
           \<longrightarrow> carVectors w2 = carVectors w)"
proof -
  define w1 where "w1 = afterBody (changeBody env w ch)"
  define w2 where "w2 = afterBody (changeBody env w1 ch)"
  assume ins: "operationType ch = Insert"
  have r1: "onChange env w ch = Inr w1" and r2: "onChange env w1 ch = Inr w2"
    by (simp_all add: onChange_returns w1_def w2_def afterBody_def)
  have same: "carVectors w2 = carVectors w1"
  proof (cases "documentKey ch")
    case None
    then show ?thesis
      by (simp add: w1_def w2_def changeBody_no_key carVectors_afterBody)
  next
    case (Some cid)
    have b: "changeBody env x ch = upsertEmbeddingForCar env x (fullDocument ch)" for x
      using ins Some by (simp add: changeBody_upsert)
    show ?thesis
      unfolding w2_def w1_def b carVectors_afterBody by (rule upsert_twice_carVectors)
  qed
  have body: "changeBody env w ch = upsertEmbeddingForCar env w (Some c)"
    if "documentKey ch \<noteq> None" "fullDocument ch = Some c" for c
  proof -
    from that(1) obtain cid where k: "documentKey ch = Some cid" by auto
    show ?thesis using ins k that(2) changeBody_upsert [of ch cid env w] by simp
  qed
  have ok: "vectorsFor (car_id c) (carVectors w2)
                 = carVectorOf c v # tl (vectorsFor (car_id c) (carVectors w))
          \<and> (\<forall>cid. cid \<noteq> car_id c \<longrightarrow>
                vectorsFor cid (carVectors w2) = vectorsFor cid (carVectors w))
          \<and> (length (vectorsFor (car_id c) (carVectors w)) \<le> 1 \<longrightarrow>
                vectorsFor (car_id c) (carVectors w2) = [carVectorOf c v])"
    if h: "documentKey ch \<noteq> None" "fullDocument ch = Some c"
          "embedQuery env (carText c) = Inr v" "carVectorFault env = None" for c v
  proof -
    have v1: "carVectors w1 = upsertDoc (carVectorOf c v) (carVectors w)"
      unfolding w1_def body [OF h(1,2)] carVectors_afterBody by (simp add: upsert_carVectors h)
    have i: "carId (carVectorOf c v) = car_id c" by (simp add: carVectorOf_def)
    have a: "vectorsFor (car_id c) (carVectors w2)
               = carVectorOf c v # tl (vectorsFor (car_id c) (carVectors w))"
      using vectorsFor_upsertDoc [of "carVectorOf c v" "carVectors w"] by (simp add: same v1 i)
    have o: "vectorsFor cid (carVectors w2) = vectorsFor cid (carVectors w)"
      if "cid \<noteq> car_id c" for cid
      using that vectorsFor_upsertDoc_other [of cid "carVectorOf c v" "carVectors w"]
      by (simp add: same v1 i)
    have l: "vectorsFor (car_id c) (carVectors w2) = [carVectorOf c v]"
      if "length (vectorsFor (car_id c) (carVectors w)) \<le> 1"
      using that vectorsFor_upsertDoc_le1 [of "carVectorOf c v" "carVectors w"]
      by (simp add: same v1 i)
    show ?thesis using a o l by blast
  qed
  have bad: "carVectors w2 = carVectors w"
    if h: "documentKey ch \<noteq> None" "fullDocument ch = Some c"
          "embedQuery env (carText c) = Inl e" for c e
    unfolding same w1_def body [OF h(1,2)] carVectors_afterBody
    by (simp add: upsert_carVectors h)
  show ?thesis using r1 r2 same ok bad by blast
qed

theorem insert_twice_idempotent_witness:
  "(\<exists>w1 w2. onChange okEnv world0 (insertEvent corolla) = Inr w1
      \<and> onChange okEnv w1 (insertEvent corolla) = Inr w2
      \<and> carVectors w2 = carVectors w1
      \<and> vectorsFor ''c1'' (carVectors w2) = [carVectorOf corolla [14]])
   \<and> (\<exists>w1 w2. onChange okEnv worldChunks (insertEvent corolla) = Inr w1
      \<and> onChange okEnv w1 (insertEvent corolla) = Inr w2
      \<and> carVectors w2 = carVectors w1
      \<and> vectorsFor ''c1'' (carVectors w2) = [carVectorOf corolla [14], chunkTwo])
   \<and> (\<exists>w1 w2. onChange downEnv worldChunks (insertEvent corolla) = Inr w1
      \<and> onChange downEnv w1 (insertEvent corolla) = Inr w2
      \<and> carVectors w2 = [chunkOne, chunkTwo])"
proof -
  have op: "operationType (insertEvent corolla) = Insert" by (simp add: insertEvent_def)
  have k: "documentKey (insertEvent corolla) \<noteq> None"
    and d: "fullDocument (insertEvent corolla) = Some corolla"
    by (simp_all add: insertEvent_def)
  have e: "embedQuery okEnv (carText corolla) = Inr [14]" "carVectorFault okEnv = None"
    by (simp_all add: okEnv_def corolla_text)
  have f: "embedQuery downEnv (carText corolla) = Inl (ProviderError ''timeout'')"
    by (simp add: downEnv_def)
  have a: "\<exists>w1 w2. onChange okEnv world0 (insertEvent corolla) = Inr w1
      \<and> onChange okEnv w1 (insertEvent corolla) = Inr w2
      \<and> carVectors w2 = carVectors w1
      \<and> vectorsFor ''c1'' (carVectors w2) = [carVectorOf corolla [14]]"
  proof -
    from insert_twice_idempotent [OF op, of okEnv world0]
    obtain w1 w2 where
      r: "onChange okEnv world0 (insertEvent corolla) = Inr w1"
         "onChange okEnv w1 (insertEvent corolla) = Inr w2"
         "carVectors w2 = carVectors w1"
      and one: "\<forall>c v. documentKey (insertEvent corolla) \<noteq> None
               \<and> fullDocument (insertEvent corolla) = Some c
               \<and> embedQuery okEnv (carText c) = Inr v \<and> carVectorFault okEnv = None
           \<longrightarrow> vectorsFor (car_id c) (carVectors w2)
                 = carVectorOf c v # tl (vectorsFor (car_id c) (carVectors world0))
               \<and> (\<forall>cid. cid \<noteq> car_id c \<longrightarrow>
                     vectorsFor cid (carVectors w2) = vectorsFor cid (carVectors world0))
               \<and> (length (vectorsFor (car_id c) (carVectors world0)) \<le> 1 \<longrightarrow>
                     vectorsFor (car_id c) (carVectors w2) = [carVectorOf c v])"
      by blast
    from one [rule_format, of corolla "[14]"] k d e
    have "length (vectorsFor (car_id corolla) (carVectors world0)) \<le> 1 \<longrightarrow>
            vectorsFor (car_id corolla) (carVectors w2) = [carVectorOf corolla [14]]"
      by blast
    then have "vectorsFor ''c1'' (carVectors w2) = [carVectorOf corolla [14]]"
      by (simp add: world0_def vectorsFor_def corolla_id)
    with r show ?thesis by blast
  qed
  have b: "\<exists>w1 w2. onChange okEnv worldChunks (insertEvent corolla) = Inr w1
      \<and> onChange okEnv w1 (insertEvent corolla) = Inr w2
      \<and> carVectors w2 = carVectors w1
      \<and> vectorsFor ''c1'' (carVectors w2) = [carVectorOf corolla [14], chunkTwo]"
  proof -
    from insert_twice_idempotent [OF op, of okEnv worldChunks]
    obtain w1 w2 where
      r: "onChange okEnv worldChunks (insertEvent corolla) = Inr w1"
         "onChange okEnv w1 (insertEvent corolla) = Inr w2"
         "carVectors w2 = carVectors w1"
      and one: "\<forall>c v. documentKey (insertEvent corolla) \<noteq> None
               \<and> fullDocument (insertEvent corolla) = Some c
               \<and> embedQuery okEnv (carText c) = Inr v \<and> carVectorFault okEnv = None
           \<longrightarrow> vectorsFor (car_id c) (carVectors w2)
                 = carVectorOf c v # tl (vectorsFor (car_id c) (carVectors worldChunks))
               \<and> (\<forall>cid. cid \<noteq> car_id c \<longrightarrow>
                     vectorsFor cid (carVectors w2) = vectorsFor cid (carVectors worldChunks))
               \<and> (length (vectorsFor (car_id c) (carVectors worldChunks)) \<le> 1 \<longrightarrow>
                     vectorsFor (car_id c) (carVectors w2) = [carVectorOf c v])"
      by blast
    from one [rule_format, of corolla "[14]"] k d e
    have "vectorsFor (car_id corolla) (carVectors w2)
            = carVectorOf corolla [14] # tl (vectorsFor (car_id corolla) (carVectors worldChunks))"
      by blast
    then have "vectorsFor ''c1'' (carVectors w2) = [carVectorOf corolla [14], chunkTwo]"
      by (simp add: worldChunks_def world0_def vectorsFor_def corolla_id chunkOne_def chunkTwo_def)
    with r show ?thesis by blast
  qed
  have c: "\<exists>w1 w2. onChange downEnv worldChunks (insertEvent corolla) = Inr w1
      \<and> onChange downEnv w1 (insertEvent corolla) = Inr w2
      \<and> carVectors w2 = [chunkOne, chunkTwo]"
  proof -
    from insert_twice_idempotent [OF op, of downEnv worldChunks]
    obtain w1 w2 where
      r: "onChange downEnv worldChunks (insertEvent corolla) = Inr w1"
         "onChange downEnv w1 (insertEvent corolla) = Inr w2"
      and bad: "\<forall>c e. documentKey (insertEvent corolla) \<noteq> None
               \<and> fullDocument (insertEvent corolla) = Some c
               \<and> embedQuery downEnv (carText c) = Inl e
           \<longrightarrow> carVectors w2 = carVectors worldChunks"
      by blast
    from bad [rule_format, of corolla "ProviderError ''timeout''"] k d f
    have "carVectors w2 = [chunkOne, chunkTwo]"
      by (simp add: worldChunks_def world0_def)
    with r show ?thesis by blast
  qed
  from a b c show ?thesis by blast
qed


text \<open>
  Claim C5. When the provider fails on the text of a car, \<^verbatim>\<open>upsertEmbeddingForCar\<close> logs the
  error and returns without touching the vector collection, so every document of it,
  the car's own among them, stays as it was; the same holds for the listener that calls it
  and for the callback of the debounce timer.
\<close>

theorem embedding_failure_keeps_index:
  "embedQuery env (carText c) = Inl e \<Longrightarrow>
     upsertEmbeddingForCar env w (Some c) =
       (None, consoleLog (w\<lparr>embedCalls := embedCalls w @ [carText c]\<rparr>)
                (LogError ''Error generating embedding:'' e))
   \<and> carVectors (snd (upsertEmbeddingForCar env w (Some c))) = carVectors w
   \<and> ((operationType ch = Insert \<or> operationType ch = Update) \<and> documentKey ch \<noteq> None
        \<and> fullDocument ch = Some c
      \<longrightarrow> (\<exists>w'. onChange env w ch = Inr w' \<and> carVectors w' = carVectors w))
   \<and> (carProductFault env = None \<and> carProducts w cid = Some c
      \<longrightarrow> carVectors (debounceFire env w cid) = carVectors w)"
proof -
  assume f: "embedQuery env (carText c) = Inl e"
  have u: "upsertEmbeddingForCar env w (Some c) =
       (None, consoleLog (w\<lparr>embedCalls := embedCalls w @ [carText c]\<rparr>)
                (LogError ''Error generating embedding:'' e))"
    using f by (rule upsert_failed)
  have v: "carVectors (snd (upsertEmbeddingForCar env w (Some c))) = carVectors w"
    by (simp add: upsert_carVectors f)
  have ev: "\<exists>w'. onChange env w ch = Inr w' \<and> carVectors w' = carVectors w"
    if "operationType ch = Insert \<or> operationType ch = Update" "documentKey ch \<noteq> None"
       "fullDocument ch = Some c"
  proof -
    from that(2) obtain k where k: "documentKey ch = Some k" by auto
    have "changeBody env w ch = upsertEmbeddingForCar env w (Some c)"
      using changeBody_upsert [OF that(1) k, of env w] that(3) by simp
    then show ?thesis
      by (simp add: onChange_returns u consoleLog_def)
  qed
  have fire: "carVectors (debounceFire env w cid) = carVectors w"
    if "carProductFault env = None" "carProducts w cid = Some c"
    using that by (simp add: debounceFire_def u consoleLog_def)
  show ?thesis using u v ev fire by blast
qed

theorem embedding_failure_keeps_index_witness:
  "carVectors (snd (upsertEmbeddingForCar downEnv
       (world0\<lparr>carVectors := [carVectorOf corolla [1, 2]]\<rparr>) (Some (corolla\<lparr>name := Some ''A''\<rparr>))))
     = [carVectorOf corolla [1, 2]]
   \<and> (\<exists>w'. onChange downEnv (world0\<lparr>carVectors := [carVectorOf corolla [1, 2]]\<rparr>)
              (updateEvent (corolla\<lparr>name := Some ''A''\<rparr>) [(''name'', JStr ''A'')]) = Inr w'
          \<and> carVectors w' = [carVectorOf corolla [1, 2]])
   \<and> carVectors (debounceFire downEnv (worldPending\<lparr>carVectors := [carVectorOf corolla [1, 2]]\<rparr>)
        ''c1'') = [carVectorOf corolla [1, 2]]"
proof -
  have f: "embedQuery downEnv (carText c) = Inl (ProviderError ''timeout'')" for c
    by (simp add: downEnv_def)
  note t = embedding_failure_keeps_index [OF f [of "corolla\<lparr>name := Some ''A''\<rparr>"],
      of "world0\<lparr>carVectors := [carVectorOf corolla [1, 2]]\<rparr>"
         "updateEvent (corolla\<lparr>name := Some ''A''\<rparr>) [(''name'', JStr ''A'')]" "''c1''"]
  note u = embedding_failure_keeps_index [OF f [of corolla],
      of "worldPending\<lparr>carVectors := [carVectorOf corolla [1, 2]]\<rparr>"
         "insertEvent corolla" "''c1''"]
  from t [THEN conjunct2, THEN conjunct1] t [THEN conjunct2, THEN conjunct2, THEN conjunct1]
    u [THEN conjunct2, THEN conjunct2, THEN conjunct2]
  show ?thesis
    by (simp add: updateEvent_def downEnv_def worldPending_def)
qed

text \<open>
  Claim C10. When the callback of a debounce timer has run, \<^verbatim>\<open>debounceMap\<close> has no entry for
  its car, whatever the fetch and the upsert did; a failing fetch is logged and changes
  nothing else.
\<close>

theorem fired_timer_leaves_no_entry:
  "debounceMap (debounceFire env w cid) cid = None
   \<and> (carProductFault env = Some e \<longrightarrow>
        console (debounceFire env w cid) = console w @ [LogError ''Error in debounced upsert:'' e]
      \<and> carVectors (debounceFire env w cid) = carVectors w)
   \<and> (find (\<lambda>t. handle t = h) (timers w) = Some t \<and> action t = DebouncedUpsert cid \<longrightarrow>
        debounceMap (fireTimer env w h) cid = None)"
  by (simp add: debounceFire_entry fireTimer_def)
     (simp add: debounceFire_def consoleLog_def)


theorem fired_timer_leaves_no_entry_witness:
  "debounceMap worldPending ''c1'' = Some 0
   \<and> debounceMap (fireTimer faultyEnv worldPending 0) ''c1'' = None
   \<and> console (debounceFire faultyEnv worldPending ''c1'')
       = [LogError ''Error in debounced upsert:'' (DbError ''connection lost'')]"
  using fired_timer_leaves_no_entry [of faultyEnv worldPending "''c1''"
          "DbError ''connection lost''" 0
          "\<lparr>handle = 0, delay = DEBOUNCE_MS, action = DebouncedUpsert ''c1''\<rparr>"]
  by (simp add: faultyEnv_def worldPending_def world0_def)


text \<open>
  Claim C4. Whatever the events and whatever fails while they are handled, the listener
  returns and the stream hands it the next event; what the body throws is logged. The
  listener of the stream's errors returns too: it logs the error and leaves one timer of
  five seconds whose callback calls \<^verbatim>\<open>watchCarChanges\<close> again.
\<close>

theorem feed_survives_errors:
  "\<exists>w1 w2. deliver w feed = Inr w1 \<and> onChange env w1 ch = Inr w2
      \<and> deliver w (feed @ [(env, ch)]) = Inr w2
      \<and> (\<forall>e wb. changeBody env w1 ch = (Some e, wb) \<longrightarrow>
            w2 = consoleLog wb (LogError ''Error processing change event:'' e))
      \<and> (\<exists>w3. onStreamError w err = Inr w3
            \<and> timers w3 = timers w @ [\<lparr>handle = nextHandle w, delay = 5000, action = Rewatch\<rparr>]
            \<and> console w3 = console w @ [LogError ''Change stream error:'' err]
            \<and> watches w3 = watches w \<and> carVectors w3 = carVectors w)
      \<and> (\<forall>h t. find (\<lambda>t. handle t = h) (timers w) = Some t \<and> action t = Rewatch \<longrightarrow>
            watches (fireTimer env w h) = Suc (watches w))"
proof -
  obtain w1 where d: "deliver w feed = Inr w1" using deliver_returns by blast
  define w2 where "w2 = afterBody (changeBody env w1 ch)"
  have o: "onChange env w1 ch = Inr w2"
    by (simp add: onChange_returns w2_def afterBody_def)
  have a: "deliver w (feed @ [(env, ch)]) = Inr w2"
    by (simp add: deliver_append d o)
  have l: "w2 = consoleLog wb (LogError ''Error processing change event:'' e)"
    if "changeBody env w1 ch = (Some e, wb)" for e wb
    using that by (simp add: w2_def afterBody_def)
  have s: "\<exists>w3. onStreamError w err = Inr w3
            \<and> timers w3 = timers w @ [\<lparr>handle = nextHandle w, delay = 5000, action = Rewatch\<rparr>]
            \<and> console w3 = console w @ [LogError ''Change stream error:'' err]
            \<and> watches w3 = watches w \<and> carVectors w3 = carVectors w"
    by (simp add: onStreamError_def setTimeout_def consoleLog_def)
  have r: "watches (fireTimer env w h) = Suc (watches w)"
    if "find (\<lambda>t. handle t = h) (timers w) = Some t" "action t = Rewatch" for h t
    using that by (simp add: fireTimer_def watchCarChanges_def consoleLog_def)
  show ?thesis using d o a l s r by blast
qed


theorem feed_survives_errors_witness:
  "(\<exists>w1 w2. deliver world0 [(downEnv, invalidateEvent)] = Inr w1
      \<and> deliver world0 ([(downEnv, invalidateEvent)] @ [(okEnv, insertEvent corolla)]) = Inr w2
      \<and> console w1 = [LogError ''Error processing change event:''
                        (TypeError ''Cannot read properties of undefined (reading _id)'')]
      \<and> map vtext (carVectors w2) = [''Corolla Toyota''])
   \<and> (\<exists>w3. onStreamError world0 (DbError ''connection lost'') = Inr w3 \<and> timers w3 = timers worldRetry)
   \<and> watches (fireTimer okEnv worldRetry 0) = Suc (watches worldRetry)"
proof -
  from feed_survives_errors [of world0 "[]" downEnv invalidateEvent "DbError ''connection lost''"]
  obtain w1 where
    b: "deliver world0 ([] @ [(downEnv, invalidateEvent)]) = Inr w1"
    and l: "\<forall>e wb. changeBody downEnv world0 invalidateEvent = (Some e, wb) \<longrightarrow>
            w1 = consoleLog wb (LogError ''Error processing change event:'' e)"
    and s: "\<exists>w3. onStreamError world0 (DbError ''connection lost'') = Inr w3
            \<and> timers w3 = timers world0 @ [\<lparr>handle = nextHandle world0, delay = 5000, action = Rewatch\<rparr>]"
    by auto
  have "changeBody downEnv world0 invalidateEvent
          = (Some (TypeError ''Cannot read properties of undefined (reading _id)''), world0)"
    by (simp add: changeBody_no_key invalidateEvent_def)
  with l have w1: "w1 = consoleLog world0 (LogError ''Error processing change event:''
                        (TypeError ''Cannot read properties of undefined (reading _id)''))"
    by blast
  from feed_survives_errors [of world0 "[(downEnv, invalidateEvent)]" okEnv "insertEvent corolla"
         "DbError ''connection lost''"] b
  obtain w2 where
    a: "onChange okEnv w1 (insertEvent corolla) = Inr w2"
       "deliver world0 ([(downEnv, invalidateEvent)] @ [(okEnv, insertEvent corolla)]) = Inr w2"
    by auto
  from a(1) have w2: "map vtext (carVectors w2) = [''Corolla Toyota'']"
    unfolding w1
    by (auto simp add: onChange_returns changeBody_upsert insertEvent_def upsertEmbeddingForCar_def
        corolla_text okEnv_def world0_def consoleLog_def Let_def carVectorOf_sel)
  from feed_survives_errors [of worldRetry "[]" okEnv "insertEvent corolla" "DbError ''x''"]
  have r: "watches (fireTimer okEnv worldRetry 0) = Suc (watches worldRetry)"
    by (auto simp add: worldRetry_def)
  from b a(2) w1 w2 s r show ?thesis
    by (auto simp add: consoleLog_def world0_def worldRetry_def)
qed

text \<open>
  Claim C1, at a failing input. Two updates of the name of one car arrive one after the
  other. The first test of the listener takes every update, so each is embedded at once
  from the document the event carries: the provider is called twice, no timer is ever
  pending and \<^verbatim>\<open>debounceMap\<close> stays empty. (No event makes the listener schedule a timer:
  \<open>changeBody_never_schedules\<close>; every update with its document costs one call:
  \<open>update_embeds_at_once\<close>.)
\<close>

theorem two_updates_embed_twice:
  "\<exists>w'. deliver world0
          [(okEnv, updateEvent (corolla\<lparr>name := Some ''A''\<rparr>) [(''name'', JStr ''A'')]),
           (okEnv, updateEvent (corolla\<lparr>name := Some ''B''\<rparr>) [(''name'', JStr ''B'')])] = Inr w'
      \<and> embedCalls w' = [''A Toyota'', ''B Toyota'']
      \<and> timers w' = [] \<and> debounceMap w' ''c1'' = None
      \<and> map vtext (carVectors w') = [''B Toyota'']"
  by (simp add: onChange_returns changeBody_upsert updateEvent_def upsertEmbeddingForCar_def
        corollaA_text corollaB_text okEnv_def world0_def consoleLog_def Let_def carVectorOf_sel
        corolla_id)


text \<open>
  Claim C2, at a failing input. An update that changes the price alone, for a car with no
  document in the vector collection yet, goes the same way: the provider is called and a
  document is created.
\<close>

theorem price_update_embeds:
  "\<exists>w'. onChange okEnv world0
            (updateEvent (corolla\<lparr>price := Some 21000\<rparr>) [(''price'', JNum 21000)]) = Inr w'
      \<and> embedCalls w' = [''Corolla Toyota'']
      \<and> carVectors w' =
          [\<lparr>carId = ''c1'', vtext = ''Corolla Toyota'', embedding = [14],
            metadata = [(''name'', JStr ''Corolla''), (''brand'', JStr ''Toyota''),
                        (''category'', JUndefined), (''price'', JNum 21000),
                        (''source'', JStr ''car_database'')]\<rparr>]"
proof -
  have t: "carText (corolla\<lparr>price := Some 21000\<rparr>) = ''Corolla Toyota''"
    using corolla_text by (simp add: carText_def)
  show ?thesis
    by (simp add: onChange_returns changeBody_upsert updateEvent_def upsertEmbeddingForCar_def t
        okEnv_def world0_def consoleLog_def Let_def carVectorOf_def carMetadata_def jsString_def
        jsNumber_def)
       (simp add: corolla_def)
qed


section \<open>Properties of the answer composer\<close>

lemma isWhiteSpace_lowerChar: "isWhiteSpace (lowerChar c) = isWhiteSpace c"
  by (auto simp add: isWhiteSpace_def lowerChar_def Let_def)

lemma trim_toLowerCase: "trim (toLowerCase s) = toLowerCase (trim s)"
proof -
  have "isWhiteSpace \<circ> lowerChar = isWhiteSpace"
    by (rule ext) (simp add: isWhiteSpace_lowerChar)
  then show ?thesis
    by (simp add: trim_def toLowerCase_def dropWhile_map rev_map)
qed

lemma cacheKeyOf_empty: "cacheKeyOf s = [] \<longleftrightarrow> trim s = []"
  by (simp add: cacheKeyOf_def trim_toLowerCase) (simp add: toLowerCase_def)

lemma trim_Nil: "trim [] = []"
  by (simp add: trim_def)

lemma get_cache_ttl: "ttl (snd (get_cache c k t)) = ttl c"
  by (simp add: get_cache_def split: option.splits)

lemma get_cache_miss_state:
  "fst (get_cache c k t) = None \<Longrightarrow> snd (get_cache c k t) = c\<lparr>cache := (cache c)(k := None)\<rparr>"
  by (auto simp add: get_cache_def fun_upd_idem split: option.splits if_splits)

lemma ask_miss:
  assumes "trim s \<noteq> []" "fst (get_cache c (cacheKeyOf s) (tGet clk)) = None"
  shows "askCarAssistant env clk c (JStr s) =
     (case generate env clk s of
        Inl e \<Rightarrow> (\<lparr>status = 500,
                   body = Failure ''Failed to generate RAG response'' (errorMessage e)\<rparr>,
                  snd (get_cache c (cacheKeyOf s) (tGet clk)))
      | Inr rd \<Rightarrow> (\<lparr>status = 200, body = Json rd None\<rparr>,
                   set_cache (snd (get_cache c (cacheKeyOf s) (tGet clk))) (cacheKeyOf s) rd (tSet clk)))"
proof -
  from assms(1) have "s \<noteq> []" using trim_Nil by auto
  moreover obtain r c1 where g: "get_cache c (cacheKeyOf s) (tGet clk) = (r, c1)"
    by (cases "get_cache c (cacheKeyOf s) (tGet clk)")
  moreover from g assms(2) have "r = None" by simp
  ultimately show ?thesis
    using assms(1) by (simp add: askCarAssistant_def Let_def split: sum.splits)
qed

lemma ask_hit:
  assumes "trim s \<noteq> []" "get_cache c (cacheKeyOf s) (tGet clk) = (Some stored, c1)"
  shows "askCarAssistant env clk c (JStr s) =
           (\<lparr>status = 200, body = Json (stored\<lparr>cached := True\<rparr>) (Some True)\<rparr>, c1)"
proof -
  from assms(1) have "s \<noteq> []" using trim_Nil by auto
  with assms show ?thesis
    by (simp add: askCarAssistant_def Let_def)
qed

lemma ask_answered:
  assumes "askCarAssistant env clk c (JStr s) = (\<lparr>status = 200, body = Json stored None\<rparr>, c1)"
  shows "trim s \<noteq> [] \<and> generate env clk s = Inr stored
       \<and> c1 = set_cache (snd (get_cache c (cacheKeyOf s) (tGet clk))) (cacheKeyOf s) stored (tSet clk)"
  using assms
  by (auto simp add: askCarAssistant_def Let_def split: if_splits prod.splits option.splits sum.splits)

lemma generate_fails:
  "getClient env = Some e
   \<or> (getClient env = None \<and> similaritySearch env s 3 = Inl e)
   \<or> (getClient env = None
      \<and> (\<exists>rs. similaritySearch env s 3 = Inr rs
              \<and> llmInvoke env (systemContent (buildContext rs)) s = Inl e))
   \<Longrightarrow> generate env clk s = Inl e"
  by (auto simp add: generate_def Let_def)

lemma generate_answers:
  "getClient env = None \<Longrightarrow> similaritySearch env q 3 = Inr rs \<Longrightarrow>
   llmInvoke env (systemContent (buildContext rs)) q = Inr a \<Longrightarrow>
   generate env clk q =
     Inr \<lparr>query = q, answer = a, responseTime = showInt (tTotal clk - tStart clk) @ ''ms'',
          cached = False, sources = map sourceOf rs\<rparr>"
  by (simp add: generate_def Let_def)


text \<open>
  Claim C7. Two queries that are equal once lowered and trimmed have the same cache key.
  When the first was answered by the pipeline (status 200, not from the cache), the answer
  sits under that key, and the second, looked up no later than the time to live after the
  answer was stored, is answered from the cache with the stored answer, marked
  \<^verbatim>\<open>cached: true, cacheHit: true\<close>, whatever the outside would do then.
\<close>

theorem same_key_hits_cache:
  assumes "trim (toLowerCase q1) = trim (toLowerCase q2)"
    and "askCarAssistant env1 clk1 c (JStr q1) = (\<lparr>status = 200, body = Json stored None\<rparr>, c1)"
    and "tGet clk2 - tSet clk1 \<le> ttl c"
  shows "cacheKeyOf q1 = cacheKeyOf q2
       \<and> map_option val (cache c1 (cacheKeyOf q2)) = Some stored
       \<and> askCarAssistant env2 clk2 c1 (JStr q2) =
           (\<lparr>status = 200, body = Json (stored\<lparr>cached := True\<rparr>) (Some True)\<rparr>, c1)"
proof -
  have key: "cacheKeyOf q1 = cacheKeyOf q2"
    using assms(1) by (simp add: cacheKeyOf_def)
  define c0 where "c0 = snd (get_cache c (cacheKeyOf q1) (tGet clk1))"
  from ask_answered [OF assms(2)]
  have ne: "trim q1 \<noteq> []"
    and c1: "c1 = set_cache c0 (cacheKeyOf q1) stored (tSet clk1)"
    by (simp_all add: c0_def)
  have ne2: "trim q2 \<noteq> []"
    using ne key cacheKeyOf_empty [of q1] cacheKeyOf_empty [of q2] by simp
  have ttl0: "ttl c0 = ttl c" by (simp add: c0_def get_cache_ttl)
  have look: "cache c1 (cacheKeyOf q2) = Some \<lparr>val = stored, expiresAt = tSet clk1 + ttl c\<rparr>"
    unfolding c1 key [symmetric] using set_cache_lookup [of c0 "cacheKeyOf q1" stored "tSet clk1"]
    by (simp add: ttl0)
  have "get_cache c1 (cacheKeyOf q2) (tGet clk2) = (Some stored, c1)"
    using get_cache_hit [OF look, of "tGet clk2"] assms(3) by simp
  from ask_hit [OF ne2 this] key look show ?thesis by simp
qed

theorem same_key_hits_cache_witness:
  "\<exists>stored c1.
     askCarAssistant ragEnvOk (clockAt 1000) (newCache ragCacheTtl) (JStr ''  What TOYOTA? '')
       = (\<lparr>status = 200, body = Json stored None\<rparr>, c1)
   \<and> answer stored = ''We have the Toyota Corolla at $20,000.''
   \<and> askCarAssistant llmDown (clockAt 181000) c1 (JStr ''what toyota?'')
       = (\<lparr>status = 200, body = Json (stored\<lparr>cached := True\<rparr>) (Some True)\<rparr>, c1)"
proof -
  have t: "trim ''  What TOYOTA? '' \<noteq> []" by code_simp
  have k: "trim (toLowerCase ''  What TOYOTA? '') = trim (toLowerCase ''what toyota?'')"
    by code_simp
  have m: "fst (get_cache (newCache ragCacheTtl) (cacheKeyOf ''  What TOYOTA? '')
                 (tGet (clockAt 1000))) = None"
    by (simp add: get_cache_def newCache_def)
  define rs where "rs = take 3 [transformCarToDocument corolla]"
  define stored where "stored =
     \<lparr>query = ''  What TOYOTA? '', answer = ''We have the Toyota Corolla at $20,000.'',
      responseTime = showInt (tTotal (clockAt 1000) - tStart (clockAt 1000)) @ ''ms'',
      cached = False, sources = map sourceOf rs\<rparr>"
  have g: "generate ragEnvOk (clockAt 1000) ''  What TOYOTA? '' = Inr stored"
    unfolding stored_def
    by (rule generate_answers) (simp_all add: ragEnvOk_def rs_def)
  have an: "answer stored = ''We have the Toyota Corolla at $20,000.''"
    by (simp add: stored_def)
  define c1 where "c1 = set_cache
      (snd (get_cache (newCache ragCacheTtl) (cacheKeyOf ''  What TOYOTA? '') (tGet (clockAt 1000))))
      (cacheKeyOf ''  What TOYOTA? '') stored (tSet (clockAt 1000))"
  have a: "askCarAssistant ragEnvOk (clockAt 1000) (newCache ragCacheTtl) (JStr ''  What TOYOTA? '')
       = (\<lparr>status = 200, body = Json stored None\<rparr>, c1)"
    by (simp add: ask_miss [OF t m] g c1_def)
  have w: "tGet (clockAt 181000) - tSet (clockAt 1000) \<le> ttl (newCache ragCacheTtl :: responseData SimpleCache)"
    by (simp add: clockAt_def newCache_def ragCacheTtl_def)
  from same_key_hits_cache [OF k a w, of llmDown] a an show ?thesis by blast
qed


text \<open>
  Claim C8, as stated, fails: the lookup that precedes the pipeline deletes an expired
  entry under the query's key, so a failing request can leave the cache different from
  what it was.
\<close>

theorem failure_evicts_stale_entry:
  "status (fst (askCarAssistant llmDown (clockAt 200000) staleCache (JStr ''Price?''))) = 500
   \<and> snd (askCarAssistant llmDown (clockAt 200000) staleCache (JStr ''Price?'')) \<noteq> staleCache"
proof -
  have t: "trim ''Price?'' \<noteq> []" by code_simp
  have k: "cacheKeyOf ''Price?'' = ''price?''" by code_simp
  have st: "cache staleCache ''price?'' = Some \<lparr>val = oldAnswer, expiresAt = 180000\<rparr>"
    by (simp add: staleCache_def set_cache_def newCache_def ragCacheTtl_def)
  have g: "get_cache staleCache ''price?'' 200000
             = (None, staleCache\<lparr>cache := (cache staleCache)(''price?'' := None)\<rparr>)"
    using get_cache_expired [OF st, of 200000] by simp
  have m: "fst (get_cache staleCache (cacheKeyOf ''Price?'') (tGet (clockAt 200000))) = None"
    by (simp add: k clockAt_def g)
  have f: "generate llmDown (clockAt 200000) ''Price?'' = Inl (ProviderError ''Request timed out.'')"
    by (rule generate_fails) (simp add: llmDown_def)
  have a: "askCarAssistant llmDown (clockAt 200000) staleCache (JStr ''Price?'') =
           (\<lparr>status = 500,
             body = Failure ''Failed to generate RAG response'' ''Request timed out.''\<rparr>,
            staleCache\<lparr>cache := (cache staleCache)(''price?'' := None)\<rparr>)"
    unfolding ask_miss [OF t m] f by (simp add: k clockAt_def g)
  have "cache (staleCache\<lparr>cache := (cache staleCache)(''price?'' := None)\<rparr>) ''price?''
          \<noteq> cache staleCache ''price?''"
    by (simp add: st)
  then have "staleCache\<lparr>cache := (cache staleCache)(''price?'' := None)\<rparr> \<noteq> staleCache"
    by metis
  with a show ?thesis by simp
qed


text \<open>
  Claim C8, amended. When the client, the search or the model fails after a lookup that
  missed, the response is the status 500 with the error's message and nothing is stored:
  the cache afterwards is the cache before without the query's key, which is the cache
  before unless an expired entry sat under that key. Every entry it holds was there
  before.
\<close>

theorem failure_stores_nothing:
  assumes "getClient env = Some e
     \<or> (getClient env = None \<and> similaritySearch env s 3 = Inl e)
     \<or> (getClient env = None
        \<and> (\<exists>rs. similaritySearch env s 3 = Inr rs
                \<and> llmInvoke env (systemContent (buildContext rs)) s = Inl e))"
    and "trim s \<noteq> []"
    and "fst (get_cache c (cacheKeyOf s) (tGet clk)) = None"
  shows "askCarAssistant env clk c (JStr s) =
           (\<lparr>status = 500, body = Failure ''Failed to generate RAG response'' (errorMessage e)\<rparr>,
            c\<lparr>cache := (cache c)(cacheKeyOf s := None)\<rparr>)
       \<and> (cache c (cacheKeyOf s) = None \<longrightarrow> snd (askCarAssistant env clk c (JStr s)) = c)
       \<and> (\<forall>k it. cache (snd (askCarAssistant env clk c (JStr s))) k = Some it
              \<longrightarrow> cache c k = Some it)"
proof -
  have g: "generate env clk s = Inl e" using assms(1) by (rule generate_fails)
  have a: "askCarAssistant env clk c (JStr s) =
           (\<lparr>status = 500, body = Failure ''Failed to generate RAG response'' (errorMessage e)\<rparr>,
            c\<lparr>cache := (cache c)(cacheKeyOf s := None)\<rparr>)"
    by (simp add: ask_miss [OF assms(2,3)] g get_cache_miss_state [OF assms(3)])
  have b: "snd (askCarAssistant env clk c (JStr s)) = c" if "cache c (cacheKeyOf s) = None"
    using that by (simp add: a fun_upd_idem)
  have d: "cache c k = Some it"
    if "cache (snd (askCarAssistant env clk c (JStr s))) k = Some it" for k it
    using that by (simp add: a split: if_splits)
  show ?thesis using a b d by blast
qed

theorem failure_stores_nothing_witness:
  "askCarAssistant llmDown (clockAt 1000) (newCache ragCacheTtl) (JStr ''Price?'') =
     (\<lparr>status = 500, body = Failure ''Failed to generate RAG response'' ''Request timed out.''\<rparr>,
      newCache ragCacheTtl)
   \<and> cache (snd (askCarAssistant llmDown (clockAt 200000) staleCache (JStr ''Price?''))) = Map.empty"
proof -
  have t: "trim ''Price?'' \<noteq> []" by code_simp
  have k: "cacheKeyOf ''Price?'' = ''price?''" by code_simp
  have f: "getClient llmDown = Some (ProviderError ''Request timed out.'')
     \<or> (getClient llmDown = None
         \<and> similaritySearch llmDown ''Price?'' 3 = Inl (ProviderError ''Request timed out.''))
     \<or> (getClient llmDown = None
        \<and> (\<exists>rs. similaritySearch llmDown ''Price?'' 3 = Inr rs
                \<and> llmInvoke llmDown (systemContent (buildContext rs)) ''Price?''
                    = Inl (ProviderError ''Request timed out.'')))"
    by (simp add: llmDown_def)
  have m1: "fst (get_cache (newCache ragCacheTtl) (cacheKeyOf ''Price?'') (tGet (clockAt 1000))) = None"
    by (simp add: get_cache_def newCache_def)
  have st: "cache staleCache ''price?'' = Some \<lparr>val = oldAnswer, expiresAt = 180000\<rparr>"
    by (simp add: staleCache_def set_cache_def newCache_def ragCacheTtl_def)
  have m2: "fst (get_cache staleCache (cacheKeyOf ''Price?'') (tGet (clockAt 200000))) = None"
    using get_cache_expired [OF st, of 200000] by (simp add: k clockAt_def)
  have e: "cache (newCache ragCacheTtl :: responseData SimpleCache) ''price?'' = None"
    by (simp add: newCache_def)
  from failure_stores_nothing [OF f t m1, THEN conjunct2, THEN conjunct1] e k
  have r1: "snd (askCarAssistant llmDown (clockAt 1000) (newCache ragCacheTtl) (JStr ''Price?''))
              = newCache ragCacheTtl"
    by simp
  from failure_stores_nothing [OF f t m1, THEN conjunct1]
  have r0: "fst (askCarAssistant llmDown (clockAt 1000) (newCache ragCacheTtl) (JStr ''Price?''))
      = \<lparr>status = 500, body = Failure ''Failed to generate RAG response'' ''Request timed out.''\<rparr>"
    by simp
  from failure_stores_nothing [OF f t m2, THEN conjunct1]
  have r2: "cache (snd (askCarAssistant llmDown (clockAt 200000) staleCache (JStr ''Price?'')))
              = Map.empty"
    by (simp add: k staleCache_def set_cache_def newCache_def)
  from r0 r1 r2 show ?thesis by (simp add: prod_eq_iff)
qed


section \<open>Properties of the two text builders\<close>

lemma price_shown: "showInt 20000 = ''20000''"
  by (simp add: showInt_def digit_def)


text \<open>
  Claim C9, at a failing input. For a car with a name, a brand and a price only, the text
  the listener embeds is the two words: the six missing fields leave nothing behind, since
  each is the empty string and the spaces at the end are trimmed. The builder of the car
  controller writes \<^verbatim>\<open>N/A\<close> for each of them.
\<close>

theorem canonical_text_drops_missing_fields:
  "carText corolla = ''Corolla Toyota''
   \<and> pageContent (transformCarToDocument corolla) =
       ''Car: Corolla'' @ [newline] @ ''Brand: Toyota'' @ [newline] @ ''Model Year: N/A'' @ [newline]
       @ ''Category: N/A'' @ [newline] @ ''Description: N/A'' @ [newline] @ ''Price: $20000''
       @ [newline] @ ''Fuel Type: N/A'' @ [newline] @ ''Transmission: N/A'' @ [newline]
       @ ''Engine Capacity: N/A'' @ [newline] @ ''Mileage: N/A''"
  by (simp add: corolla_text)
     (simp add: transformCarToDocument_def corolla_def shown_def orNA_def price_shown)


end
